theory Spec2Isabelle
  imports Complex_Main "HOL-Library.Word" "HOL-Library.Char_ord" "HOL-Library.List_Lexorder"
begin

section \<open>JSON values and the accessors the client uses\<close>

text \<open>
  The client stores every packet as a \<^verbatim>\<open>nlohmann::json\<close> value. An object is a
  \<^verbatim>\<open>std::map\<close> from strings to values: its keys are unique and kept in key order, so
  two objects are equal when they hold the same members. The model keeps an object as a
  list of members in key order (\<open>obj_set\<close> inserts at the sorted position). Integers of
  both signs are \<open>JInt\<close>; floating-point numbers do not occur in the packets treated
  here and are left out.
\<close>

datatype json =
    JNull
  | JBool bool
  | JInt int
  | JStr string
  | JArr "json list"
  | JObj "(string \<times> json) list"

text \<open>
  The exceptions that the library and the client's other collaborators raise. The client
  only ever catches \<^verbatim>\<open>std::out_of_range\<close> (a missing key) and
  \<^verbatim>\<open>std::invalid_argument\<close> (a JSON text that does not parse);
  \<^verbatim>\<open>std::domain_error\<close> (a value of the wrong type) and anything else escapes.
  Reading a vector element out of range has no defined behaviour in C++ and is
  \<open>undefined_behaviour\<close> here.
\<close>

datatype exn = out_of_range | domain_error | invalid_argument | other_exception | undefined_behaviour

type_synonym 'a result = "exn + 'a"

definition bind :: "'a result \<Rightarrow> ('a \<Rightarrow> 'b result) \<Rightarrow> 'b result" where
  "bind r f = (case r of Inl e \<Rightarrow> Inl e | Inr v \<Rightarrow> f v)"

text \<open>\<^verbatim>\<open>try { ... } catch(std::out_of_range) { }\<close> around a block that has not yet
  changed anything: the value before the block is kept.\<close>

definition catch_out_of_range :: "'a result \<Rightarrow> 'a \<Rightarrow> 'a result" where
  "catch_out_of_range r unchanged = (case r of Inl e \<Rightarrow> (if e = out_of_range then Inr unchanged else Inl e) | Inr v \<Rightarrow> Inr v)"

type_synonym CallId = "64 word"

fun is_array :: "json \<Rightarrow> bool" where
  "is_array (JArr _) = True"
| "is_array _ = False"

fun is_object :: "json \<Rightarrow> bool" where
  "is_object (JObj _) = True"
| "is_object _ = False"

fun is_null :: "json \<Rightarrow> bool" where
  "is_null JNull = True"
| "is_null _ = False"

text \<open>\<^verbatim>\<open>json::size()\<close>: 0 for null, the number of elements of an array or object, 1 for
  every other value. \<^verbatim>\<open>json::empty()\<close> is \<open>size = 0\<close>.\<close>

fun json_size :: "json \<Rightarrow> nat" where
  "json_size JNull = 0"
| "json_size (JArr xs) = length xs"
| "json_size (JObj kvs) = length kvs"
| "json_size _ = 1"

definition json_empty :: "json \<Rightarrow> bool" where
  "json_empty j = (json_size j = 0)"

text \<open>\<^verbatim>\<open>obj.at(key)\<close>.\<close>

fun at_key :: "json \<Rightarrow> string \<Rightarrow> json result" where
  "at_key (JObj kvs) k = (case map_of kvs k of None \<Rightarrow> Inl out_of_range | Some v \<Rightarrow> Inr v)"
| "at_key _ k = Inl domain_error"

text \<open>\<^verbatim>\<open>arr[i]\<close> on a \<^verbatim>\<open>const json&\<close>.\<close>

fun at_index :: "json \<Rightarrow> nat \<Rightarrow> json result" where
  "at_index (JArr xs) i = (if i < length xs then Inr (xs ! i) else Inl undefined_behaviour)"
| "at_index _ i = Inl domain_error"

text \<open>Implicit conversions of a JSON value: to \<^verbatim>\<open>std::string\<close>, to \<^verbatim>\<open>int\<close> (32 bits,
  two's complement), to \<^verbatim>\<open>uint32_t\<close> and to \<^verbatim>\<open>uint64_t\<close>.\<close>

fun get_string :: "json \<Rightarrow> string result" where
  "get_string (JStr s) = Inr s"
| "get_string _ = Inl domain_error"

fun get_int :: "json \<Rightarrow> int result" where
  "get_int (JInt n) = Inr (sint (word_of_int n :: 32 word))"
| "get_int (JBool b) = Inr (if b then 1 else 0)"
| "get_int _ = Inl domain_error"

fun get_uint32 :: "json \<Rightarrow> 32 word result" where
  "get_uint32 (JInt n) = Inr (word_of_int n)"
| "get_uint32 (JBool b) = Inr (if b then 1 else 0)"
| "get_uint32 _ = Inl domain_error"

fun get_CallId :: "json \<Rightarrow> CallId result" where
  "get_CallId (JInt n) = Inr (word_of_int n)"
| "get_CallId _ = Inl domain_error"

definition json_of_CallId :: "CallId \<Rightarrow> json" where
  "json_of_CallId c = JInt (uint c)"

text \<open>\<^verbatim>\<open>obj.value(key, default)\<close>: the member converted to the type of the default when
  the key is there, the default otherwise. The instances are the ones the client uses:
  \<^verbatim>\<open>value("cid", 0)\<close> and \<^verbatim>\<open>value("rid", 0)\<close> have the type of the literal \<^verbatim>\<open>0\<close>,
  which is \<^verbatim>\<open>int\<close>.\<close>

fun value_int :: "json \<Rightarrow> string \<Rightarrow> int \<Rightarrow> int result" where
  "value_int (JObj kvs) k d = (case map_of kvs k of None \<Rightarrow> Inr d | Some v \<Rightarrow> get_int v)"
| "value_int _ k d = Inl domain_error"

fun value_string :: "json \<Rightarrow> string \<Rightarrow> string \<Rightarrow> string result" where
  "value_string (JObj kvs) k d = (case map_of kvs k of None \<Rightarrow> Inr d | Some v \<Rightarrow> get_string v)"
| "value_string _ k d = Inl domain_error"

fun value_uint32 :: "json \<Rightarrow> string \<Rightarrow> 32 word \<Rightarrow> 32 word result" where
  "value_uint32 (JObj kvs) k d = (case map_of kvs k of None \<Rightarrow> Inr d | Some v \<Rightarrow> get_uint32 v)"
| "value_uint32 _ k d = Inl domain_error"

fun value_json :: "json \<Rightarrow> string \<Rightarrow> json \<Rightarrow> json result" where
  "value_json (JObj kvs) k d = (case map_of kvs k of None \<Rightarrow> Inr d | Some v \<Rightarrow> Inr v)"
| "value_json _ k d = Inl domain_error"

text \<open>The conversion of the \<^verbatim>\<open>int\<close> that \<^verbatim>\<open>value("cid", 0)\<close> returns to a \<^verbatim>\<open>CallId\<close>.\<close>

definition CallId_of_int :: "int \<Rightarrow> CallId" where
  "CallId_of_int i = word_of_int i"

text \<open>\<^verbatim>\<open>obj[key] = v\<close> and \<^verbatim>\<open>obj.erase(key)\<close> on the members of an object.\<close>

fun obj_set :: "string \<Rightarrow> json \<Rightarrow> (string \<times> json) list \<Rightarrow> (string \<times> json) list" where
  "obj_set k v [] = [(k, v)]"
| "obj_set k v ((k', v') # kvs) =
     (if k = k' then (k, v) # kvs
      else if k < k' then (k, v) # (k', v') # kvs
      else (k', v') # obj_set k v kvs)"

fun obj_erase :: "string \<Rightarrow> (string \<times> json) list \<Rightarrow> (string \<times> json) list" where
  "obj_erase k [] = []"
| "obj_erase k ((k', v') # kvs) = (if k = k' then obj_erase k kvs else (k', v') # obj_erase k kvs)"

fun eraseMembers :: "(string \<times> json) list \<Rightarrow> string list \<Rightarrow> (string \<times> json) list" where
  "eraseMembers kvs [] = kvs"
| "eraseMembers kvs (n # names) = eraseMembers (obj_erase n kvs) names"

text \<open>An object written as a list of members, as in \<^verbatim>\<open>json o = { {"a", x}, {"b", y} }\<close>.\<close>

definition json_object :: "(string \<times> json) list \<Rightarrow> json" where
  "json_object members = JObj (foldl (\<lambda>kvs (k, v). obj_set k v kvs) [] members)"

section \<open>The binary codec\<close>

text \<open>
  \<^verbatim>\<open>json::to_msgpack\<close> and \<^verbatim>\<open>json::from_msgpack\<close> belong to the JSON library. All the
  codec needs of them is that the second reads back what the first wrote, so a MessagePack
  payload is represented by the value it encodes.
\<close>

datatype msgpack = Msgpack json

definition to_msgpack :: "json \<Rightarrow> msgpack" where
  "to_msgpack j = Msgpack j"

fun from_msgpack :: "msgpack \<Rightarrow> json" where
  "from_msgpack (Msgpack j) = j"

text \<open>The array \<^verbatim>\<open>[name, data, cid?]\<close> that the publish and emit rewrites build: the call
  id is appended when it is not zero.\<close>

definition with_cid :: "json list \<Rightarrow> CallId \<Rightarrow> json" where
  "with_cid a cid = JArr (if cid \<noteq> 0 then a @ [json_of_CallId cid] else a)"

definition compressPublishPacket_body :: "json \<Rightarrow> json result" where
  "compressPublishPacket_body obj =
     bind (bind (at_key obj ''event'') get_string) (\<lambda>eventName.
     bind (at_key obj ''data'') (\<lambda>data.
       if ''#publish'' \<noteq> eventName then Inr obj
       else
         bind (at_key data ''data'') (\<lambda>inner.
         bind (value_int obj ''cid'' 0) (\<lambda>c.
           case obj of
             JObj kvs \<Rightarrow>
               Inr (JObj (eraseMembers (obj_set ''p'' (with_cid [JStr eventName, inner] (CallId_of_int c)) kvs)
                            [''event'', ''data'', ''cid'']))
           | _ \<Rightarrow> Inl domain_error))))"

definition compressPublishPacket :: "json \<Rightarrow> json result" where
  "compressPublishPacket obj = catch_out_of_range (compressPublishPacket_body obj) obj"

definition compressEmitPacket_body :: "json \<Rightarrow> json result" where
  "compressEmitPacket_body obj =
     bind (bind (at_key obj ''event'') get_string) (\<lambda>eventName.
     bind (at_key obj ''data'') (\<lambda>data.
     bind (value_int obj ''cid'' 0) (\<lambda>c.
       case obj of
         JObj kvs \<Rightarrow>
           Inr (JObj (eraseMembers (obj_set ''e'' (with_cid [JStr eventName, data] (CallId_of_int c)) kvs)
                        [''event'', ''data'', ''cid'']))
       | _ \<Rightarrow> Inl domain_error)))"

definition compressEmitPacket :: "json \<Rightarrow> json result" where
  "compressEmitPacket obj = catch_out_of_range (compressEmitPacket_body obj) obj"

definition compressResponsePacket_body :: "json \<Rightarrow> json result" where
  "compressResponsePacket_body obj =
     bind (bind (at_key obj ''rid'') get_CallId) (\<lambda>rid.
     bind (at_key obj ''error'') (\<lambda>err.
     bind (at_key obj ''data'') (\<lambda>data.
       case obj of
         JObj kvs \<Rightarrow>
           Inr (JObj (eraseMembers (obj_set ''r'' (JArr [json_of_CallId rid, err, data]) kvs)
                        [''rid'', ''error'', ''data'']))
       | _ \<Rightarrow> Inl domain_error)))"

definition compressResponsePacket :: "json \<Rightarrow> json result" where
  "compressResponsePacket obj = catch_out_of_range (compressResponsePacket_body obj) obj"

definition compressSinglePacket :: "json \<Rightarrow> json result" where
  "compressSinglePacket obj =
     bind (compressPublishPacket obj) (\<lambda>o1.
     bind (compressEmitPacket o1) (\<lambda>o2.
     compressResponsePacket o2))"

definition decompressEmitPacket_body :: "json \<Rightarrow> json result" where
  "decompressEmitPacket_body obj =
     bind (at_key obj ''e'') (\<lambda>e.
     bind (at_index e 0) (\<lambda>e0.
     bind (at_index e 1) (\<lambda>e1.
       case obj of
         JObj kvs \<Rightarrow>
           (let kvs1 = obj_set ''data'' e1 (obj_set ''event'' e0 kvs) in
            if json_size e > 2
            then bind (at_index e 2) (\<lambda>e2. Inr (JObj (obj_erase ''e'' (obj_set ''cid'' e2 kvs1))))
            else Inr (JObj (obj_erase ''e'' kvs1)))
       | _ \<Rightarrow> Inl domain_error)))"

definition decompressEmitPacket :: "json \<Rightarrow> json result" where
  "decompressEmitPacket obj = catch_out_of_range (decompressEmitPacket_body obj) obj"

definition decompressPublishPacket_body :: "json \<Rightarrow> json result" where
  "decompressPublishPacket_body obj =
     bind (at_key obj ''p'') (\<lambda>p.
     bind (at_index p 0) (\<lambda>p0.
     bind (at_index p 1) (\<lambda>p1.
       case obj of
         JObj kvs \<Rightarrow>
           (let kvs1 = obj_set ''data'' (json_object [(''channel'', p0), (''data'', p1)])
                         (obj_set ''event'' (JStr ''#publish'') kvs) in
            if json_size p > 2
            then bind (at_index p 2) (\<lambda>p2. Inr (JObj (obj_erase ''p'' (obj_set ''cid'' p2 kvs1))))
            else Inr (JObj (obj_erase ''p'' kvs1)))
       | _ \<Rightarrow> Inl domain_error)))"

definition decompressPublishPacket :: "json \<Rightarrow> json result" where
  "decompressPublishPacket obj = catch_out_of_range (decompressPublishPacket_body obj) obj"

definition decompressResponsePacket_body :: "json \<Rightarrow> json result" where
  "decompressResponsePacket_body obj =
     bind (at_key obj ''r'') (\<lambda>r.
     bind (at_index r 0) (\<lambda>r0.
     bind (at_index r 1) (\<lambda>r1.
     bind (at_index r 2) (\<lambda>r2.
       case obj of
         JObj kvs \<Rightarrow>
           (let kvs1 = obj_set ''rid'' r0 kvs;
                kvs2 = (if \<not> is_null r1 then obj_set ''error'' r1 kvs1 else kvs1);
                kvs3 = (if \<not> is_null r2 then obj_set ''data'' r2 kvs2 else kvs2)
            in Inr (JObj (obj_erase ''r'' kvs3)))
       | _ \<Rightarrow> Inl domain_error))))"

definition decompressResponsePacket :: "json \<Rightarrow> json result" where
  "decompressResponsePacket obj = catch_out_of_range (decompressResponsePacket_body obj) obj"

definition decompressSinglePacket :: "json \<Rightarrow> json result" where
  "decompressSinglePacket obj =
     bind (decompressEmitPacket obj) (\<lambda>o1.
     bind (decompressPublishPacket o1) (\<lambda>o2.
     decompressResponsePacket o2))"

text \<open>The loop over the elements of a top-level array; the first exception ends it.\<close>

fun map_result :: "('a \<Rightarrow> 'b result) \<Rightarrow> 'a list \<Rightarrow> 'b list result" where
  "map_result f [] = Inr []"
| "map_result f (x # xs) = bind (f x) (\<lambda>y. bind (map_result f xs) (\<lambda>ys. Inr (y # ys)))"

definition encode :: "json \<Rightarrow> msgpack result" where
  "encode obj =
     (case obj of
        JArr xs \<Rightarrow>
          (if xs = [] then Inr (to_msgpack JNull)
           else bind (map_result compressSinglePacket xs) (\<lambda>ys. Inr (to_msgpack (JArr ys))))
      | _ \<Rightarrow>
          bind (value_string obj ''event'' '''') (\<lambda>ev.
            if '''' \<noteq> ev then bind (compressSinglePacket obj) (\<lambda>packed. Inr (to_msgpack packed))
            else bind (value_int obj ''rid'' 0) (\<lambda>rid.
              if 0 \<noteq> rid then bind (compressSinglePacket obj) (\<lambda>packed. Inr (to_msgpack packed))
              else Inr (to_msgpack JNull))))"

definition decode :: "msgpack \<Rightarrow> json result" where
  "decode payload =
     (let obj = from_msgpack payload in
      case obj of
        JArr xs \<Rightarrow> bind (map_result decompressSinglePacket xs) (\<lambda>ys. Inr (JArr ys))
      | JObj kvs \<Rightarrow> decompressSinglePacket obj
      | _ \<Rightarrow> Inr obj)"

section \<open>The socket\<close>

datatype errors = protocol_error | unexpected_rid | json_parse_failure | response_error | ack_timeout

datatype ChannelState = UNSUBSCRIBED | PENDING | SUBSCRIBED

record ChannelStateData =
  name :: string
  oldState :: ChannelState
  newState :: ChannelState

record ChannelSubscriptionOptions =
  waitForAuth :: bool
  data :: json

text \<open>An \<^verbatim>\<open>SCChannel\<close> object (\<^verbatim>\<open>m_name\<close>, \<^verbatim>\<open>m_state\<close>) with the slots connected to its
  \<^verbatim>\<open>ChannelEvent\<close> signal, which \<^verbatim>\<open>unwatch\<close> disconnects.\<close>

record SCChannel =
  ch_name :: string
  ch_state :: ChannelState
  ch_watchers :: "nat list"

text \<open>Channels are held through \<^verbatim>\<open>std::shared_ptr\<close>: by the registry, by the user and by the
  response handler of a \<^verbatim>\<open>#subscribe\<close>. A pointer is an address into \<open>heap\<close>.\<close>

type_synonym SCChannelPtr = nat

text \<open>A response handler is either a callback of the user, known by a number, or the lambda
  that \<^verbatim>\<open>tryChannelSubscribe\<close> passes to \<^verbatim>\<open>emit\<close>, which captures the channel and the
  subscription options.\<close>

datatype ResponseHandler = UserHandler nat | SubscribeHandler SCChannelPtr ChannelSubscriptionOptions

datatype deadline_timer = Armed | Cancelled

record ResponseItem =
  handler :: ResponseHandler
  ackTimer :: "deadline_timer option"

datatype State = CLOSED | CONNECTING | OPEN

datatype AuthState = UNAUTHENTICATED | AUTHENTICATED

datatype ProtocolEvent = UNKNOWN | PUBLISH | REMOVE_TOKEN | SET_TOKEN | EVENT | IS_AUTHENTICATED | ACK_RECEIVE

record AutoReconnectOptions =
  initialDelay :: "32 word"
  randomness :: "32 word"
  multiplier :: real
  maxDelay :: "32 word"

record ConnectOptions =
  autoReconnect :: bool
  autoReconnectOptions :: AutoReconnectOptions
  ackTimeout :: "32 word"

text \<open>What the socket does that its user can observe: a signal of the socket's event table,
  a signal of a channel's event table, or a call of a response handler. The third argument of
  \<open>EmitEvent\<close> is the call id that the response callback handed to the slot answers, when
  there is one.\<close>

datatype Signal =
    ErrorEvent errors
  | ConnectingEvent
  | ConnectEvent json
  | AuthenticateEvent string
  | AuthTokenChangeEvent string
  | DeauthenticateEvent
  | SubscribeEvent string
  | SubscribeFailEvent string errors
  | SubscriptionStateChangeEvent ChannelStateData
  | UnsubscribeEvent string
  | EmitEvent string json "CallId option"

datatype ChannelSignal =
    ChSubscribeEvent string
  | ChSubscribeFailEvent string errors
  | ChSubscriptionStateChangeEvent ChannelStateData
  | ChUnsubscribeEvent string
  | ChannelEvent json

datatype effect =
    Socket Signal
  | Channel SCChannelPtr ChannelSignal
  | Invoked ResponseHandler "errors option" json

record SCSocket =
  m_state :: State
  m_connectOptions :: ConnectOptions
  m_nextCallId :: CallId
  m_outQueue :: "json list"
  m_pendingResponses :: "CallId \<rightharpoonup> ResponseItem"
  m_signedAuthToken :: string
  m_authToken :: json
  m_channels :: "(string \<times> SCChannelPtr) list"
  m_connectAttempts :: "32 word"
  m_pingTimeout :: "32 word"
  heap :: "SCChannelPtr \<Rightarrow> SCChannel"
  next_addr :: nat
  trace :: "effect list"

definition AutoReconnectOptions_default :: AutoReconnectOptions where
  "AutoReconnectOptions_default =
     \<lparr>initialDelay = 10000, randomness = 10000, multiplier = 3 / 2, maxDelay = 60000\<rparr>"

definition ConnectOptions_default :: ConnectOptions where
  "ConnectOptions_default =
     \<lparr>autoReconnect = True, autoReconnectOptions = AutoReconnectOptions_default, ackTimeout = 10\<rparr>"

text \<open>The constructor.\<close>

definition SCSocket_new :: "ConnectOptions \<Rightarrow> SCSocket" where
  "SCSocket_new connectOptions =
     \<lparr>m_state = CLOSED, m_connectOptions = connectOptions, m_nextCallId = 1, m_outQueue = [],
      m_pendingResponses = Map.empty, m_signedAuthToken = [], m_authToken = JNull,
      m_channels = [], m_connectAttempts = 0, m_pingTimeout = ackTimeout connectOptions * 1000,
      heap = (\<lambda>_. \<lparr>ch_name = [], ch_state = UNSUBSCRIBED, ch_watchers = []\<rparr>), next_addr = 0,
      trace = []\<rparr>"

definition triggerEvent :: "SCSocket \<Rightarrow> Signal \<Rightarrow> SCSocket" where
  "triggerEvent s sig = s\<lparr>trace := trace s @ [Socket sig]\<rparr>"

definition channel_triggerEvent :: "SCSocket \<Rightarrow> SCChannelPtr \<Rightarrow> ChannelSignal \<Rightarrow> SCSocket" where
  "channel_triggerEvent s channel sig = s\<lparr>trace := trace s @ [Channel channel sig]\<rparr>"

definition getState :: "SCSocket \<Rightarrow> SCChannelPtr \<Rightarrow> ChannelState" where
  "getState s channel = ch_state (heap s channel)"

definition getName :: "SCSocket \<Rightarrow> SCChannelPtr \<Rightarrow> string" where
  "getName s channel = ch_name (heap s channel)"

definition set_channel_state :: "SCSocket \<Rightarrow> SCChannelPtr \<Rightarrow> ChannelState \<Rightarrow> SCSocket" where
  "set_channel_state s channel st = s\<lparr>heap := (heap s)(channel := (heap s channel)\<lparr>ch_state := st\<rparr>)\<rparr>"

definition getAuthState :: "SCSocket \<Rightarrow> AuthState" where
  "getAuthState s = (if m_signedAuthToken s = [] then UNAUTHENTICATED else AUTHENTICATED)"

text \<open>The body that \<^verbatim>\<open>emit\<close> dispatches to the io thread. The members of
  \<^verbatim>\<open>payload\<close> are listed in key order.\<close>

definition emit :: "SCSocket \<Rightarrow> string \<Rightarrow> json \<Rightarrow> ResponseHandler option \<Rightarrow> bool \<Rightarrow> SCSocket" where
  "emit s eventName d respHandler noTimeout =
     (let payload = [(''data'', d), (''event'', JStr eventName)] in
      case respHandler of
        None \<Rightarrow> s\<lparr>m_outQueue := m_outQueue s @ [JObj payload]\<rparr>
      | Some h \<Rightarrow>
          (let cid = m_nextCallId s;
               respItem = \<lparr>handler = h, ackTimer = (if \<not> noTimeout then Some Armed else None)\<rparr>
           in s\<lparr>m_nextCallId := cid + 1,
                m_pendingResponses := (m_pendingResponses s)(cid \<mapsto> respItem),
                m_outQueue := m_outQueue s @ [JObj (obj_set ''cid'' (json_of_CallId cid) payload)]\<rparr>))"

definition triggerChannelSubscribeFail ::
    "SCSocket \<Rightarrow> SCChannelPtr \<Rightarrow> errors \<Rightarrow> ChannelSubscriptionOptions \<Rightarrow> SCSocket" where
  "triggerChannelSubscribeFail s channel ec channelSubOptions =
     (let meetsRequirements = (\<not> waitForAuth channelSubOptions \<or> AUTHENTICATED = getAuthState s) in
      if UNSUBSCRIBED \<noteq> getState s channel \<and> meetsRequirements then
        (let s1 = set_channel_state s channel UNSUBSCRIBED;
             s2 = channel_triggerEvent s1 channel (ChSubscribeFailEvent (getName s1 channel) ec)
         in triggerEvent s2 (SubscribeFailEvent (getName s2 channel) ec))
      else s)"

definition triggerChannelSubscribe ::
    "SCSocket \<Rightarrow> SCChannelPtr \<Rightarrow> ChannelSubscriptionOptions \<Rightarrow> SCSocket" where
  "triggerChannelSubscribe s channel channelSubOption =
     (let old = getState s channel in
      if SUBSCRIBED = old then s
      else
        (let s1 = set_channel_state s channel SUBSCRIBED;
             stateData = \<lparr>name = getName s1 channel, oldState = old, newState = getState s1 channel\<rparr>;
             s2 = channel_triggerEvent s1 channel (ChSubscriptionStateChangeEvent stateData);
             s3 = channel_triggerEvent s2 channel (ChSubscribeEvent (getName s2 channel));
             s4 = triggerEvent s3 (SubscriptionStateChangeEvent stateData)
         in triggerEvent s4 (SubscribeEvent (getName s4 channel))))"

definition triggerChannelUnsubscribe :: "SCSocket \<Rightarrow> SCChannelPtr \<Rightarrow> ChannelState \<Rightarrow> SCSocket" where
  "triggerChannelUnsubscribe s channel new =
     (let old = getState s channel;
          s1 = set_channel_state s channel new
      in
      if SUBSCRIBED = old then
        (let stateData = \<lparr>name = getName s1 channel, oldState = old, newState = new\<rparr>;
             s2 = channel_triggerEvent s1 channel (ChSubscriptionStateChangeEvent stateData);
             s3 = channel_triggerEvent s2 channel (ChUnsubscribeEvent (getName s2 channel));
             s4 = triggerEvent s3 (SubscriptionStateChangeEvent stateData)
         in triggerEvent s4 (UnsubscribeEvent (getName s4 channel)))
      else s1)"

text \<open>Calling a response handler. The lambda of \<^verbatim>\<open>tryChannelSubscribe\<close> runs
  \<^verbatim>\<open>triggerChannelSubscribeFail\<close> on an error code and \<^verbatim>\<open>triggerChannelSubscribe\<close>
  otherwise; a callback of the user is opaque.\<close>

definition call_handler :: "SCSocket \<Rightarrow> ResponseHandler \<Rightarrow> errors option \<Rightarrow> json \<Rightarrow> SCSocket" where
  "call_handler s h ec resp =
     (let s1 = s\<lparr>trace := trace s @ [Invoked h ec resp]\<rparr> in
      case h of
        UserHandler n \<Rightarrow> s1
      | SubscribeHandler channel channelSubOptions \<Rightarrow>
          (case ec of
             Some e \<Rightarrow> triggerChannelSubscribeFail s1 channel e channelSubOptions
           | None \<Rightarrow> triggerChannelSubscribe s1 channel channelSubOptions))"

text \<open>\<^verbatim>\<open>ackTimeoutErrMsg << "..." << std::dec << cid\<close>: the call id in decimal.\<close>

function dec :: "nat \<Rightarrow> string" where
  "dec n = (if n < 10 then [''0123456789'' ! n] else dec (n div 10) @ [''0123456789'' ! (n mod 10)])"
  by pat_completeness auto
termination
  by (relation "measure (\<lambda>n. n)") auto

declare dec.simps [simp del]

definition ackTimeoutErrMsg :: "CallId \<Rightarrow> string" where
  "ackTimeoutErrMsg cid = ''no ack for call id (cid) '' @ dec (unat cid)"

definition handleEmitAckTimeout :: "SCSocket \<Rightarrow> CallId \<Rightarrow> SCSocket" where
  "handleEmitAckTimeout s cid =
     (case m_pendingResponses s cid of
        None \<Rightarrow> s
      | Some respItem \<Rightarrow>
          (let s1 = s\<lparr>m_pendingResponses := (m_pendingResponses s)(cid := None)\<rparr>;
               errorInfo = JObj [(''error'', JObj [(''message'', JStr (ackTimeoutErrMsg cid))])]
           in call_handler s1 (handler respItem) (Some ack_timeout) errorInfo))"

text \<open>The wait handler of the ack timer that \<^verbatim>\<open>emit\<close> arms; \<open>ec\<close> says that the wait
  ended with an error code (the timer was cancelled).\<close>

definition ackTimer_wait_handler :: "SCSocket \<Rightarrow> CallId \<Rightarrow> bool \<Rightarrow> SCSocket" where
  "ackTimer_wait_handler s cid ec = (if ec then s else handleEmitAckTimeout s cid)"

subsection \<open>Channels\<close>

text \<open>The registry \<^verbatim>\<open>m_channels\<close> is a \<^verbatim>\<open>std::map\<close>: it is walked in the order of the
  channel names.\<close>

fun channels_insert :: "string \<Rightarrow> SCChannelPtr \<Rightarrow> (string \<times> SCChannelPtr) list \<Rightarrow> (string \<times> SCChannelPtr) list" where
  "channels_insert k v [] = [(k, v)]"
| "channels_insert k v ((k', v') # kvs) =
     (if k = k' then (k, v) # kvs
      else if k < k' then (k, v) # (k', v') # kvs
      else (k', v') # channels_insert k v kvs)"

definition channels_erase :: "string \<Rightarrow> (string \<times> SCChannelPtr) list \<Rightarrow> (string \<times> SCChannelPtr) list" where
  "channels_erase k kvs = filter (\<lambda>kv. fst kv \<noteq> k) kvs"

definition tryChannelSubscribe :: "SCSocket \<Rightarrow> SCChannelPtr \<Rightarrow> ChannelSubscriptionOptions \<Rightarrow> SCSocket" where
  "tryChannelSubscribe s channel channelSubOptions =
     (let meetsRequirements = (\<not> waitForAuth channelSubOptions \<or> AUTHENTICATED = getAuthState s) in
      if OPEN = m_state s \<and> meetsRequirements then
        (let channelSubData =
               (if \<not> json_empty (data channelSubOptions)
                then JObj [(''channel'', JStr (getName s channel)), (''data'', data channelSubOptions)]
                else JObj [(''channel'', JStr (getName s channel))])
         in emit s ''#subscribe'' channelSubData (Some (SubscribeHandler channel channelSubOptions)) False)
      else s)"

definition subscribe :: "SCSocket \<Rightarrow> string \<Rightarrow> ChannelSubscriptionOptions \<Rightarrow> SCSocket \<times> SCChannelPtr" where
  "subscribe s channelName channelSubOptions =
     (let (s1, channel) =
            (case map_of (m_channels s) channelName of
               Some c \<Rightarrow> (s, c)
             | None \<Rightarrow>
                 (let c = next_addr s in
                  (s\<lparr>heap := (heap s)(c := \<lparr>ch_name = channelName, ch_state = UNSUBSCRIBED, ch_watchers = []\<rparr>),
                     next_addr := Suc c,
                     m_channels := channels_insert channelName c (m_channels s)\<rparr>, c)))
      in
      if UNSUBSCRIBED = getState s1 channel
      then (tryChannelSubscribe (set_channel_state s1 channel PENDING) channel channelSubOptions, channel)
      else (s1, channel))"

definition sendChannelUnsubscribe :: "SCSocket \<Rightarrow> SCChannelPtr \<Rightarrow> SCSocket" where
  "sendChannelUnsubscribe s channel = emit s ''#unsubscribe'' (JStr (getName s channel)) None False"

definition unsubscribe :: "SCSocket \<Rightarrow> string \<Rightarrow> SCSocket" where
  "unsubscribe s channelName =
     (case map_of (m_channels s) channelName of
        None \<Rightarrow> s
      | Some channel \<Rightarrow>
          (if UNSUBSCRIBED \<noteq> getState s channel
           then sendChannelUnsubscribe (triggerChannelUnsubscribe s channel UNSUBSCRIBED) channel
           else s))"

text \<open>\<^verbatim>\<open>SCChannel::unwatch()\<close> and \<^verbatim>\<open>SCChannel::unsubscribe()\<close>; the second goes back to
  the socket with the channel's name.\<close>

definition channel_unwatch :: "SCSocket \<Rightarrow> SCChannelPtr \<Rightarrow> SCSocket" where
  "channel_unwatch s channel = s\<lparr>heap := (heap s)(channel := (heap s channel)\<lparr>ch_watchers := []\<rparr>)\<rparr>"

definition channel_unsubscribe :: "SCSocket \<Rightarrow> SCChannelPtr \<Rightarrow> SCSocket" where
  "channel_unsubscribe s channel = unsubscribe s (getName s channel)"

definition destroyChannel :: "SCSocket \<Rightarrow> string \<Rightarrow> SCSocket" where
  "destroyChannel s channelName =
     (case map_of (m_channels s) channelName of
        None \<Rightarrow> s
      | Some channel \<Rightarrow>
          (let s1 = channel_unwatch s channel;
               s2 = channel_unsubscribe s1 channel
           in s2\<lparr>m_channels := channels_erase channelName (m_channels s2)\<rparr>))"

definition unwatch :: "SCSocket \<Rightarrow> string \<Rightarrow> SCSocket" where
  "unwatch s channelName =
     (case map_of (m_channels s) channelName of
        None \<Rightarrow> s
      | Some channel \<Rightarrow> channel_unwatch s channel)"

subsection \<open>Connecting and closing\<close>

definition resetState :: "SCSocket \<Rightarrow> SCSocket" where
  "resetState s = s\<lparr>m_state := CONNECTING, m_nextCallId := 1\<rparr>"

definition startConnect :: "SCSocket \<Rightarrow> SCSocket" where
  "startConnect s = triggerEvent (resetState s) ConnectingEvent"

definition connect :: "SCSocket \<Rightarrow> SCSocket" where
  "connect s = (if CLOSED \<noteq> m_state s then s else startConnect s)"

text \<open>\<^verbatim>\<open>connectHandler\<close> and \<^verbatim>\<open>initialHandshakeHandler\<close> when the error code is clear.\<close>

definition connectHandler :: "SCSocket \<Rightarrow> SCSocket" where
  "connectHandler s = s\<lparr>m_state := OPEN\<rparr>"

definition initialHandshakeHandler :: "SCSocket \<Rightarrow> SCSocket" where
  "initialHandshakeHandler s =
     s\<lparr>m_nextCallId := m_nextCallId s + 1,
       m_outQueue := m_outQueue s @
         [JObj [(''cid'', json_of_CallId (m_nextCallId s)), (''data'', JNull), (''event'', JStr ''#handshake'')]]\<rparr>"

definition clearIoWriteQueue :: "SCSocket \<Rightarrow> SCSocket" where
  "clearIoWriteQueue s = s\<lparr>m_outQueue := []\<rparr>"

definition suspend_newState :: "ChannelState \<Rightarrow> ChannelState" where
  "suspend_newState st = (if SUBSCRIBED = st \<or> PENDING = st then PENDING else UNSUBSCRIBED)"

fun suspend_loop :: "SCSocket \<Rightarrow> (string \<times> SCChannelPtr) list \<Rightarrow> SCSocket" where
  "suspend_loop s [] = s"
| "suspend_loop s (sub # subs) =
     suspend_loop (triggerChannelUnsubscribe s (snd sub) (suspend_newState (getState s (snd sub)))) subs"

definition suspendChannelSubscriptions :: "SCSocket \<Rightarrow> SCSocket" where
  "suspendChannelSubscriptions s = suspend_loop s (m_channels s)"

definition internalClose :: "SCSocket \<Rightarrow> SCSocket" where
  "internalClose s =
     (let s1 = (if OPEN = m_state s then s\<lparr>m_state := CLOSED\<rparr> else s)
      in suspendChannelSubscriptions (clearIoWriteQueue s1))"

text \<open>The public \<^verbatim>\<open>close()\<close>: of the socket's own fields it writes \<^verbatim>\<open>m_state\<close> only.\<close>

definition close :: "SCSocket \<Rightarrow> SCSocket" where
  "close s = s\<lparr>m_state := CLOSED\<rparr>"

subsection \<open>Reconnecting\<close>










subsection \<open>Inbound packets\<close>

definition getEventType :: "json \<Rightarrow> ProtocolEvent result" where
  "getEventType payload =
     (case bind (at_key payload ''event'') get_string of
        Inr eventName \<Rightarrow>
          Inr (if ''#publish'' = eventName then PUBLISH
               else if ''#removeAuthToken'' = eventName then REMOVE_TOKEN
               else if ''#setAuthToken'' = eventName then SET_TOKEN
               else EVENT)
      | Inl e \<Rightarrow>
          (if e = out_of_range
           then bind (value_int payload ''rid'' 0) (\<lambda>rid. Inr (if 1 = rid then IS_AUTHENTICATED else ACK_RECEIVE))
           else Inl e))"

text \<open>\<^verbatim>\<open>boost::split(jwtParts, jwtToken, boost::is_any_of("."))\<close>: every separator ends a
  part, and an empty input is one empty part.\<close>

fun split :: "char \<Rightarrow> string \<Rightarrow> string list" where
  "split c [] = [[]]"
| "split c (x # xs) =
     (if x = c then [] # split c xs
      else (case split c xs of [] \<Rightarrow> [[x]] | part # parts \<Rightarrow> (x # part) # parts))"

text \<open>\<^verbatim>\<open>try { ... } catch(std::out_of_range) { triggerEvent<ErrorEvent>(protocol_error); }\<close>
  and the same for \<^verbatim>\<open>std::invalid_argument\<close>, around a block run from the state \<open>s\<close>.\<close>

definition catch_protocol_error :: "exn \<Rightarrow> SCSocket \<Rightarrow> SCSocket result \<Rightarrow> SCSocket result" where
  "catch_protocol_error caught s r =
     (case r of
        Inl e \<Rightarrow> (if e = caught then Inr (triggerEvent s (ErrorEvent protocol_error)) else Inl e)
      | Inr s' \<Rightarrow> Inr s')"

definition case_PUBLISH :: "SCSocket \<Rightarrow> json \<Rightarrow> SCSocket result" where
  "case_PUBLISH s payload =
     catch_protocol_error out_of_range s
       (bind (at_key payload ''data'') (\<lambda>d.
        bind (bind (at_key d ''channel'') get_string) (\<lambda>channelName.
        bind (at_key d ''data'') (\<lambda>innerData.
          case map_of (m_channels s) channelName of
            Some channel \<Rightarrow> Inr (channel_triggerEvent s channel (ChannelEvent innerData))
          | None \<Rightarrow> Inr s))))"

definition case_REMOVE_TOKEN :: "SCSocket \<Rightarrow> SCSocket" where
  "case_REMOVE_TOKEN s = triggerEvent (s\<lparr>m_signedAuthToken := [], m_authToken := JObj []\<rparr>) DeauthenticateEvent"

text \<open>The base64 decoder of Boost and \<^verbatim>\<open>json::parse\<close> are arguments: \<open>base64\<close> and
  \<open>parse\<close> give the decoded text and the parsed value, or the exception raised. The
  ping timeout is written before the token is looked at, so an exception caught after
  that point resumes from \<open>s1\<close>.\<close>

definition case_SET_TOKEN ::
    "(string \<Rightarrow> string result) \<Rightarrow> (string \<Rightarrow> json result) \<Rightarrow> SCSocket \<Rightarrow> json \<Rightarrow> SCSocket result" where
  "case_SET_TOKEN base64 parse s payload =
     catch_protocol_error out_of_range s
       (bind (at_key payload ''data'') (\<lambda>d.
        bind (bind (at_key d ''token'') get_string) (\<lambda>jwtToken.
        bind (value_uint32 d ''pingTimeout'' (m_pingTimeout s)) (\<lambda>pt.
          let s1 = s\<lparr>m_pingTimeout := pt\<rparr>;
              jwtParts = split (CHR ''.'') jwtToken
          in
          if 3 = length jwtParts then
            catch_protocol_error out_of_range s1
              (catch_protocol_error invalid_argument s1
                (bind (base64 (jwtParts ! 1)) (\<lambda>jwtPayload.
                 let oldJwtToken = m_signedAuthToken s1 in
                 bind (parse jwtPayload) (\<lambda>tok.
                   let s2 = s1\<lparr>m_authToken := tok, m_signedAuthToken := jwtToken\<rparr>;
                       s3 = (if oldJwtToken = [] then triggerEvent s2 (AuthenticateEvent (m_signedAuthToken s2)) else s2)
                   in Inr (triggerEvent s3 (AuthTokenChangeEvent (m_signedAuthToken s3)))))))
          else Inr s1))))"

definition cancel_ackTimer :: "SCSocket \<Rightarrow> CallId \<Rightarrow> ResponseItem \<Rightarrow> SCSocket" where
  "cancel_ackTimer s rid respItem =
     (case ackTimer respItem of
        None \<Rightarrow> s
      | Some t \<Rightarrow> s\<lparr>m_pendingResponses := (m_pendingResponses s)(rid \<mapsto> respItem\<lparr>ackTimer := Some Cancelled\<rparr>)\<rparr>)"

definition case_ACK_RECEIVE :: "SCSocket \<Rightarrow> json \<Rightarrow> SCSocket result" where
  "case_ACK_RECEIVE s payload =
     bind (value_int payload ''rid'' 0) (\<lambda>r.
       let rid = CallId_of_int r in
       case m_pendingResponses s rid of
         None \<Rightarrow> Inr (triggerEvent s (ErrorEvent unexpected_rid))
       | Some respItem \<Rightarrow>
           (let s1 = cancel_ackTimer s rid respItem in
            case at_key payload ''error'' of
              Inr err \<Rightarrow> Inr (call_handler s1 (handler respItem) (Some response_error) err)
            | Inl e \<Rightarrow>
                (if e = out_of_range
                 then bind (value_json payload ''data'' (JObj [])) (\<lambda>d.
                        Inr (call_handler s1 (handler respItem) None d))
                 else Inl e)))"

definition case_EVENT :: "SCSocket \<Rightarrow> json \<Rightarrow> SCSocket result" where
  "case_EVENT s payload =
     catch_protocol_error out_of_range s
       (bind (value_int payload ''cid'' 0) (\<lambda>c.
        bind (bind (at_key payload ''event'') get_string) (\<lambda>eventName.
        bind (at_key payload ''data'') (\<lambda>eventData.
          let cid = CallId_of_int c in
          if cid \<noteq> 0 then Inr (triggerEvent s (EmitEvent eventName eventData (Some cid)))
          else Inr (triggerEvent s (EmitEvent eventName eventData None))))))"

text \<open>The response callback that \<^verbatim>\<open>EVENT\<close> hands to the slot, when the user calls it.\<close>

definition emit_response :: "SCSocket \<Rightarrow> CallId \<Rightarrow> json \<Rightarrow> SCSocket" where
  "emit_response s cid resp =
     s\<lparr>m_outQueue := m_outQueue s @ [JObj [(''data'', resp), (''rid'', json_of_CallId cid)]]\<rparr>"

text \<open>\<^verbatim>\<open>readSomeHandler\<close> from the point where a complete message that is not a ping has
  been taken from the buffer: \<open>decoded\<close> is what the codec or \<^verbatim>\<open>json::parse\<close> made of
  it. The raw signal, raised for every complete message before that point, is not part of the
  trace. An exception that nothing catches leaves the handler (\<open>Inl\<close>).\<close>

definition readSomeHandler ::
    "(string \<Rightarrow> string result) \<Rightarrow> (string \<Rightarrow> json result) \<Rightarrow> SCSocket \<Rightarrow> json result \<Rightarrow> SCSocket result" where
  "readSomeHandler base64 parse s decoded =
     (case decoded of
        Inl e \<Rightarrow> (if e = invalid_argument then Inr (triggerEvent s (ErrorEvent json_parse_failure)) else Inl e)
      | Inr payload \<Rightarrow>
          (if \<not> is_object payload then Inr (triggerEvent s (ErrorEvent protocol_error))
           else
             bind (getEventType payload) (\<lambda>eventType.
               case eventType of
                 IS_AUTHENTICATED \<Rightarrow> Inr (triggerEvent s (ConnectEvent payload))
               | PUBLISH \<Rightarrow> case_PUBLISH s payload
               | REMOVE_TOKEN \<Rightarrow> Inr (case_REMOVE_TOKEN s)
               | SET_TOKEN \<Rightarrow> case_SET_TOKEN base64 parse s payload
               | ACK_RECEIVE \<Rightarrow> case_ACK_RECEIVE s payload
               | EVENT \<Rightarrow> case_EVENT s payload
               | UNKNOWN \<Rightarrow> Inr s)))"

section \<open>Example sockets and packets\<close>

text \<open>A socket that has connected and queued its \<^verbatim>\<open>#handshake\<close>, which takes call id 1.\<close>

definition open_socket :: SCSocket where
  "open_socket = initialHandshakeHandler (connectHandler (connect (SCSocket_new ConnectOptions_default)))"

text \<open>Stand-ins for the base64 decoder and \<^verbatim>\<open>json::parse\<close>, defined on the few texts the
  examples use: \<^verbatim>\<open>e30\<close> is the base64 form of \<^verbatim>\<open>{}\<close>.\<close>

definition example_base64 :: "string \<Rightarrow> string result" where
  "example_base64 t =
     (if t = ''e30'' then Inr ''{}'' else if t = ''bm8'' then Inr ''no'' else Inl other_exception)"

definition example_parse :: "string \<Rightarrow> json result" where
  "example_parse t = (if t = ''{}'' then Inr (JObj []) else Inl invalid_argument)"

text \<open>A socket with a channel \<^verbatim>\<open>room\<close> that was subscribed before connecting, so that no
  \<^verbatim>\<open>#subscribe\<close> has been sent for it, and that has connected since.\<close>

definition room_options :: ChannelSubscriptionOptions where
  "room_options = \<lparr>waitForAuth = False, data = JNull\<rparr>"

definition room_socket :: SCSocket where
  "room_socket =
     initialHandshakeHandler (connectHandler (connect
       (fst (subscribe (SCSocket_new ConnectOptions_default) ''room'' room_options))))"

text \<open>An emit with a response handler on the connected socket: it takes call id 2. The first
  is the emit of scenario 2 of the specification with its response, the second the one of
  scenario 3.\<close>

definition foo_emitted :: SCSocket where
  "foo_emitted = emit open_socket ''foo'' (JObj [(''x'', JInt 1)]) (Some (UserHandler 0)) False"

definition foo_response :: json where
  "foo_response = JObj [(''data'', JObj [(''ok'', JBool True)]), (''rid'', JInt 2)]"

definition foo_response_twice :: "SCSocket result" where
  "foo_response_twice =
     bind (readSomeHandler example_base64 example_parse foo_emitted (Inr foo_response)) (\<lambda>s.
       readSomeHandler example_base64 example_parse s (Inr foo_response))"

definition slow_emitted :: SCSocket where
  "slow_emitted = emit open_socket ''slow'' JNull (Some (UserHandler 0)) False"

text \<open>The \<^verbatim>\<open>#publish\<close> packet of scenario 4.\<close>

definition publish_packet :: json where
  "publish_packet =
     JObj [(''data'', JObj [(''channel'', JStr ''room''), (''data'', JObj [(''msg'', JStr ''hi'')])]),
           (''event'', JStr ''#publish'')]"

text \<open>A \<^verbatim>\<open>#setAuthToken\<close> packet that carries the given token and no \<^verbatim>\<open>pingTimeout\<close>.\<close>

definition setAuthToken_packet :: "string \<Rightarrow> json" where
  "setAuthToken_packet token =
     JObj [(''data'', JObj [(''token'', JStr token)]), (''event'', JStr ''#setAuthToken'')]"

text \<open>The connected socket after \<^verbatim>\<open>subscribe("room")\<close>: the \<^verbatim>\<open>#subscribe\<close> takes call id 2
  and the channel waits for its response.\<close>

definition subscribing_socket :: SCSocket where
  "subscribing_socket = fst (subscribe open_socket ''room'' room_options)"

text \<open>The same socket after the response \<^verbatim>\<open>{rid: 2, data: null}\<close> of scenario 4, a second
  channel \<^verbatim>\<open>news\<close> that waits for authentication, and a third channel \<^verbatim>\<open>old\<close> that has
  been subscribed and unsubscribed again.\<close>

definition three_channels_socket :: SCSocket where
  "three_channels_socket =
     (case readSomeHandler example_base64 example_parse subscribing_socket
             (Inr (JObj [(''data'', JNull), (''rid'', JInt 2)])) of
        Inl e \<Rightarrow> subscribing_socket
      | Inr s \<Rightarrow>
          unsubscribe
            (fst (subscribe (fst (subscribe s ''news'' (room_options\<lparr>waitForAuth := True\<rparr>))) ''old'' room_options))
            ''old'')"

subsection \<open>Reading the trace\<close>

fun is_Invoked :: "effect \<Rightarrow> bool" where
  "is_Invoked (Invoked h ec resp) = True"
| "is_Invoked _ = False"

text \<open>The calls of response handlers in a trace, in order.\<close>

definition handler_calls :: "effect list \<Rightarrow> effect list" where
  "handler_calls t = filter is_Invoked t"

text \<open>The signals that suspending a channel raises: on the channel and then on the socket, a
  state change and an unsubscribe, when the channel was \<open>SUBSCRIBED\<close>; none otherwise.\<close>

definition suspend_signals :: "SCSocket \<Rightarrow> SCChannelPtr \<Rightarrow> effect list" where
  "suspend_signals s channel =
     (if getState s channel = SUBSCRIBED then
        (let stateData = \<lparr>name = getName s channel, oldState = SUBSCRIBED, newState = PENDING\<rparr> in
         [Channel channel (ChSubscriptionStateChangeEvent stateData),
          Channel channel (ChUnsubscribeEvent (getName s channel)),
          Socket (SubscriptionStateChangeEvent stateData),
          Socket (UnsubscribeEvent (getName s channel))])
      else [])"

section \<open>Properties of the codec\<close>

lemma compressSinglePacket_unchanged:
  assumes "map_of kvs ''event'' = None" and "map_of kvs ''rid'' = None"
  shows "compressSinglePacket (JObj kvs) = Inr (JObj kvs)"
  using assms
  by (simp add: compressSinglePacket_def compressPublishPacket_def compressPublishPacket_body_def
      compressEmitPacket_def compressEmitPacket_body_def compressResponsePacket_def
      compressResponsePacket_body_def catch_out_of_range_def bind_def)

lemma decompressSinglePacket_unchanged:
  assumes "map_of kvs ''e'' = None" and "map_of kvs ''p'' = None" and "map_of kvs ''r'' = None"
  shows "decompressSinglePacket (JObj kvs) = Inr (JObj kvs)"
  using assms
  by (simp add: decompressSinglePacket_def decompressPublishPacket_def decompressPublishPacket_body_def
      decompressEmitPacket_def decompressEmitPacket_body_def decompressResponsePacket_def
      decompressResponsePacket_body_def catch_out_of_range_def bind_def)

text \<open>
  C9. An object whose \<^verbatim>\<open>event\<close> member is absent or the empty string and whose \<^verbatim>\<open>rid\<close>
  member is absent or zero is encoded as the MessagePack encoding of null: the object is
  discarded, so encoding does not pass it through. Decoding does pass through an object that
  has none of the members \<^verbatim>\<open>e\<close>, \<^verbatim>\<open>p\<close> and \<^verbatim>\<open>r\<close>.
\<close>

theorem encode_discards_unmatched_object:
  assumes "map_of kvs ''event'' = None \<or> map_of kvs ''event'' = Some (JStr [])"
    and "map_of kvs ''rid'' = None \<or> map_of kvs ''rid'' = Some (JInt 0)"
  shows "encode (JObj kvs) = Inr (to_msgpack JNull)
    \<and> encode (JObj kvs) \<noteq> Inr (to_msgpack (JObj kvs))
    \<and> (map_of kvs ''e'' = None \<and> map_of kvs ''p'' = None \<and> map_of kvs ''r'' = None
         \<longrightarrow> decode (to_msgpack (JObj kvs)) = Inr (JObj kvs))"
proof -
  have enc: "encode (JObj kvs) = Inr (to_msgpack JNull)"
    using assms by (auto simp: encode_def bind_def)
  have not_through: "encode (JObj kvs) \<noteq> Inr (to_msgpack (JObj kvs))"
    by (simp add: enc to_msgpack_def)
  have dec_through: "map_of kvs ''e'' = None \<and> map_of kvs ''p'' = None \<and> map_of kvs ''r'' = None
         \<longrightarrow> decode (to_msgpack (JObj kvs)) = Inr (JObj kvs)"
    by (simp add: decode_def to_msgpack_def decompressSinglePacket_unchanged)
  from enc not_through dec_through show ?thesis
    by blast
qed

theorem encode_discards_unmatched_object_witness:
  "(map_of [(''foo'', JInt 1)] ''event'' = None \<or> map_of [(''foo'', JInt 1)] ''event'' = Some (JStr []))
   \<and> (map_of [(''foo'', JInt 1)] ''rid'' = None \<or> map_of [(''foo'', JInt 1)] ''rid'' = Some (JInt 0))
   \<and> encode (JObj [(''foo'', JInt 1)]) = Inr (to_msgpack JNull)
   \<and> encode (JObj [(''foo'', JInt 1)]) \<noteq> Inr (to_msgpack (JObj [(''foo'', JInt 1)]))
   \<and> decode (to_msgpack (JObj [(''foo'', JInt 1)])) = Inr (JObj [(''foo'', JInt 1)])"
proof -
  have h1: "map_of [(''foo'', JInt 1)] ''event'' = None \<or> map_of [(''foo'', JInt 1)] ''event'' = Some (JStr [])"
    by simp
  have h2: "map_of [(''foo'', JInt 1)] ''rid'' = None \<or> map_of [(''foo'', JInt 1)] ''rid'' = Some (JInt 0)"
    by simp
  show ?thesis
    using h1 h2 encode_discards_unmatched_object [OF h1 h2] by (simp add: to_msgpack_def)
qed

lemmas codec_defs =
  encode_def decode_def bind_def compressSinglePacket_def compressPublishPacket_def
  compressPublishPacket_body_def compressEmitPacket_def compressEmitPacket_body_def
  compressResponsePacket_def compressResponsePacket_body_def catch_out_of_range_def to_msgpack_def
  decompressSinglePacket_def decompressEmitPacket_def decompressEmitPacket_body_def
  decompressPublishPacket_def decompressPublishPacket_body_def decompressResponsePacket_def
  decompressResponsePacket_body_def with_cid_def CallId_of_int_def json_object_def

text \<open>The emit and response shapes do come back from the round trip: the emit of scenario 2
  unchanged, a response without its null \<^verbatim>\<open>error\<close>.\<close>

lemma emit_and_response_round_trip_examples:
  "bind (encode (JObj [(''cid'', JInt 2), (''data'', JObj [(''x'', JInt 1)]), (''event'', JStr ''foo'')])) decode =
     Inr (JObj [(''cid'', JInt 2), (''data'', JObj [(''x'', JInt 1)]), (''event'', JStr ''foo'')])"
  "bind (encode (JObj [(''data'', JObj [(''ok'', JBool True)]), (''error'', JNull), (''rid'', JInt 2)])) decode =
     Inr (JObj [(''data'', JObj [(''ok'', JBool True)]), (''rid'', JInt 2)])"
  by (simp_all add: codec_defs json_of_CallId_def)

text \<open>
  C3. The round trip of the binary codec on the \<^verbatim>\<open>#publish\<close> packet for channel
  \<^verbatim>\<open>room\<close>: \<^verbatim>\<open>compressPublishPacket\<close> writes the event name, not the channel, as the
  first element of \<^verbatim>\<open>p\<close>, and \<^verbatim>\<open>decompressPublishPacket\<close> reads that element back as the
  channel. The decoded packet names the channel \<^verbatim>\<open>#publish\<close> and differs from the packet
  that was encoded.
\<close>

theorem publish_round_trip_loses_channel:
  "encode publish_packet = Inr (to_msgpack (JObj [(''p'', JArr [JStr ''#publish'', JObj [(''msg'', JStr ''hi'')]])]))
   \<and> bind (encode publish_packet) decode =
       Inr (JObj [(''data'', JObj [(''channel'', JStr ''#publish''), (''data'', JObj [(''msg'', JStr ''hi'')])]),
                  (''event'', JStr ''#publish'')])
   \<and> bind (encode publish_packet) decode \<noteq> Inr publish_packet"
  by (simp add: publish_packet_def codec_defs)

section \<open>Properties of the socket\<close>

text \<open>
  C10. For a channel name that is not in the registry, \<^verbatim>\<open>unsubscribe\<close>,
  \<^verbatim>\<open>destroyChannel\<close> and \<^verbatim>\<open>unwatch\<close> leave the whole socket as it is: the registry,
  the egress queue, the pending-response table, the next call id, the connection state and
  the signed token are unchanged and nothing is signalled.
\<close>

theorem absent_channel_operations_are_noops:
  assumes "channelName \<notin> fst ` set (m_channels s)"
  shows "unsubscribe s channelName = s
    \<and> destroyChannel s channelName = s
    \<and> unwatch s channelName = s"
proof -
  from assms have absent: "map_of (m_channels s) channelName = None"
    by (simp add: map_of_eq_None_iff)
  have "unsubscribe s channelName = s"
    by (simp add: unsubscribe_def absent)
  moreover have "destroyChannel s channelName = s"
    by (simp add: destroyChannel_def absent)
  moreover have "unwatch s channelName = s"
    by (simp add: unwatch_def absent)
  ultimately show ?thesis
    by simp
qed

theorem absent_channel_operations_are_noops_witness:
  "''room'' \<notin> fst ` set (m_channels (SCSocket_new ConnectOptions_default))
   \<and> unsubscribe (SCSocket_new ConnectOptions_default) ''room'' = SCSocket_new ConnectOptions_default
   \<and> destroyChannel (SCSocket_new ConnectOptions_default) ''room'' = SCSocket_new ConnectOptions_default
   \<and> unwatch (SCSocket_new ConnectOptions_default) ''room'' = SCSocket_new ConnectOptions_default"
proof -
  have h: "''room'' \<notin> fst ` set (m_channels (SCSocket_new ConnectOptions_default))"
    by (simp add: SCSocket_new_def)
  show ?thesis
    using h absent_channel_operations_are_noops [OF h] by simp
qed

lemma getAuthState_iff: "(AUTHENTICATED = getAuthState s) = (m_signedAuthToken s \<noteq> [])"
  by (simp add: getAuthState_def)

lemma subscribe_sets_pending:
  assumes "map_of (m_channels s) channelName = None
           \<or> (\<exists>c. map_of (m_channels s) channelName = Some c \<and> getState s c = UNSUBSCRIBED)"
  shows "getState (fst (subscribe s channelName opts)) (snd (subscribe s channelName opts)) = PENDING"
  using assms
  by (auto simp: subscribe_def tryChannelSubscribe_def emit_def getState_def set_channel_state_def Let_def)

lemmas example_socket_defs =
  room_options_def open_socket_def initialHandshakeHandler_def connectHandler_def
  connect_def SCSocket_new_def ConnectOptions_default_def startConnect_def resetState_def
  triggerEvent_def subscribe_def tryChannelSubscribe_def set_channel_state_def getState_def
  getName_def getAuthState_def emit_def json_empty_def json_of_CallId_def

text \<open>
  C6. \<^verbatim>\<open>tryChannelSubscribe\<close> puts a \<^verbatim>\<open>#subscribe\<close> packet for the channel on the egress
  queue if and only if the socket is \<open>OPEN\<close> and the options do not wait for
  authentication or the socket is authenticated, which is the case exactly when the signed
  token is not empty. When the gate is not met the socket is left as it is: nothing is
  queued and a \<open>PENDING\<close> channel stays \<open>PENDING\<close>. No channel object is touched either
  way.
\<close>

theorem subscribe_gate:
  "(OPEN = m_state s \<and> (\<not> waitForAuth opts \<or> AUTHENTICATED = getAuthState s) \<longrightarrow>
      (\<exists>pkt. m_outQueue (tryChannelSubscribe s channel opts) = m_outQueue s @ [pkt]
         \<and> at_key pkt ''event'' = Inr (JStr ''#subscribe'')
         \<and> bind (at_key pkt ''data'') (\<lambda>d. at_key d ''channel'') = Inr (JStr (getName s channel))
         \<and> at_key pkt ''cid'' = Inr (json_of_CallId (m_nextCallId s))))
   \<and> (\<not> (OPEN = m_state s \<and> (\<not> waitForAuth opts \<or> AUTHENTICATED = getAuthState s)) \<longrightarrow>
        tryChannelSubscribe s channel opts = s)
   \<and> ((m_outQueue (tryChannelSubscribe s channel opts) \<noteq> m_outQueue s)
        = (OPEN = m_state s \<and> (\<not> waitForAuth opts \<or> AUTHENTICATED = getAuthState s)))
   \<and> heap (tryChannelSubscribe s channel opts) = heap s
   \<and> (getState s channel = PENDING \<longrightarrow> getState (tryChannelSubscribe s channel opts) channel = PENDING)
   \<and> ((AUTHENTICATED = getAuthState s) = (m_signedAuthToken s \<noteq> []))"
  by (simp add: tryChannelSubscribe_def emit_def getAuthState_def getState_def bind_def Let_def)

theorem subscribe_gate_witness:
  "OPEN = m_state room_socket
   \<and> getState room_socket 0 = PENDING
   \<and> m_signedAuthToken room_socket = []
   \<and> m_outQueue (tryChannelSubscribe room_socket 0 room_options) =
       m_outQueue room_socket @
         [JObj [(''cid'', JInt 2), (''data'', JObj [(''channel'', JStr ''room'')]), (''event'', JStr ''#subscribe'')]]
   \<and> getState (tryChannelSubscribe room_socket 0 room_options) 0 = PENDING
   \<and> tryChannelSubscribe room_socket 0 (room_options\<lparr>waitForAuth := True\<rparr>) = room_socket"
  using subscribe_gate [of room_socket room_options 0]
    subscribe_gate [of room_socket "room_options\<lparr>waitForAuth := True\<rparr>" 0]
  by (simp add: room_socket_def example_socket_defs)

subsection \<open>Responses and acknowledgement timeouts\<close>

lemmas dispatch_defs =
  readSomeHandler_def getEventType_def case_ACK_RECEIVE_def cancel_ackTimer_def call_handler_def
  CallId_of_int_def bind_def

text \<open>
  C1. The emit of scenario 2 takes call id 2. When the response \<^verbatim>\<open>{rid: 2, data: {ok: true}}\<close>
  arrives twice, the handler is called twice: the \<^verbatim>\<open>ACK_RECEIVE\<close> case cancels the ack
  timer and calls the handler, and leaves the entry for call id 2 in the pending-response
  table.
\<close>

theorem response_handler_called_twice:
  "map_sum id trace foo_response_twice =
     Inr [Socket ConnectingEvent,
          Invoked (UserHandler 0) None (JObj [(''ok'', JBool True)]),
          Invoked (UserHandler 0) None (JObj [(''ok'', JBool True)])]
   \<and> map_sum id (\<lambda>s. m_pendingResponses s 2) foo_response_twice =
       Inr (Some \<lparr>handler = UserHandler 0, ackTimer = Some Cancelled\<rparr>)"
  by (simp add: foo_response_twice_def foo_emitted_def foo_response_def example_socket_defs dispatch_defs)

text \<open>The signals of a subscription change neither the calls of handlers recorded in the
  trace nor the pending-response table.\<close>

lemma handler_calls_triggerChannelSubscribeFail:
  "handler_calls (trace (triggerChannelSubscribeFail s channel ec opts)) = handler_calls (trace s)"
  by (simp add: triggerChannelSubscribeFail_def handler_calls_def Let_def set_channel_state_def
      channel_triggerEvent_def triggerEvent_def)

lemma handler_calls_triggerChannelSubscribe:
  "handler_calls (trace (triggerChannelSubscribe s channel opts)) = handler_calls (trace s)"
  by (simp add: triggerChannelSubscribe_def handler_calls_def Let_def set_channel_state_def
      channel_triggerEvent_def triggerEvent_def)

lemma pending_triggerChannelSubscribeFail:
  "m_pendingResponses (triggerChannelSubscribeFail s channel ec opts) = m_pendingResponses s"
  by (simp add: triggerChannelSubscribeFail_def Let_def set_channel_state_def
      channel_triggerEvent_def triggerEvent_def)

lemma pending_triggerChannelSubscribe:
  "m_pendingResponses (triggerChannelSubscribe s channel opts) = m_pendingResponses s"
  by (simp add: triggerChannelSubscribe_def Let_def set_channel_state_def
      channel_triggerEvent_def triggerEvent_def)

lemma handler_calls_call_handler:
  "handler_calls (trace (call_handler s h ec resp)) = handler_calls (trace s) @ [Invoked h ec resp]"
  by (cases h; cases ec)
     (simp_all add: call_handler_def Let_def handler_calls_triggerChannelSubscribeFail
        handler_calls_triggerChannelSubscribe,
      simp_all add: handler_calls_def)

lemma pending_call_handler:
  "m_pendingResponses (call_handler s h ec resp) = m_pendingResponses s"
  by (cases h; cases ec)
     (simp_all add: call_handler_def Let_def pending_triggerChannelSubscribeFail pending_triggerChannelSubscribe)

text \<open>
  C4, as the specification states it, fails on the text of the message: for the emit of
  scenario 3, which takes call id 2, the handler is called once with \<open>ack_timeout\<close> and the
  entry is removed, but the message is \<^verbatim>\<open>no ack for call id (cid) 2\<close>.
\<close>

theorem ack_timeout_message_counterexample:
  "trace (ackTimer_wait_handler slow_emitted 2 False) =
     [Socket ConnectingEvent,
      Invoked (UserHandler 0) (Some ack_timeout)
        (JObj [(''error'', JObj [(''message'', JStr ''no ack for call id (cid) 2'')])])]
   \<and> JStr ''no ack for call id (cid) 2'' \<noteq> JStr ''no ack for call id 2''
   \<and> m_pendingResponses (ackTimer_wait_handler slow_emitted 2 False) 2 = None"
  by (simp add: slow_emitted_def example_socket_defs ackTimer_wait_handler_def handleEmitAckTimeout_def
     call_handler_def ackTimeoutErrMsg_def dec.simps)

text \<open>
  C4, amended. An emit with a handler \<open>h\<close> and \<^verbatim>\<open>noTimeout = false\<close> enters
  \<open>h\<close> with an armed ack timer under the call id it takes. If the entry is still as the
  emit left it when the timer expires, the wait handler removes it, leaves every other entry
  alone, and calls \<open>h\<close> exactly once, with \<open>ack_timeout\<close> and the payload
  \<^verbatim>\<open>{error: {message: "no ack for call id (cid) <cid>"}}\<close>, the call id in decimal.
\<close>

theorem ack_timeout_dispatch:
  assumes "s1 = emit s eventName d (Some h) False"
    and "cid = m_nextCallId s"
    and "m_pendingResponses s' cid = m_pendingResponses s1 cid"
  shows "m_pendingResponses s1 cid = Some \<lparr>handler = h, ackTimer = Some Armed\<rparr>
    \<and> m_pendingResponses (ackTimer_wait_handler s' cid False) cid = None
    \<and> (\<forall>c. c \<noteq> cid \<longrightarrow> m_pendingResponses (ackTimer_wait_handler s' cid False) c = m_pendingResponses s' c)
    \<and> handler_calls (trace (ackTimer_wait_handler s' cid False)) =
        handler_calls (trace s') @
          [Invoked h (Some ack_timeout)
             (JObj [(''error'', JObj [(''message'', JStr (''no ack for call id (cid) '' @ dec (unat cid)))])])]"
proof -
  have entry: "m_pendingResponses s1 cid = Some \<lparr>handler = h, ackTimer = Some Armed\<rparr>"
    using assms(1,2) by (simp add: emit_def Let_def)
  with assms(3) have entry': "m_pendingResponses s' cid = Some \<lparr>handler = h, ackTimer = Some Armed\<rparr>"
    by simp
  show ?thesis
    using entry entry'
    by (simp add: ackTimer_wait_handler_def handleEmitAckTimeout_def Let_def pending_call_handler
        handler_calls_call_handler ackTimeoutErrMsg_def)
qed

theorem ack_timeout_dispatch_witness:
  "slow_emitted = emit open_socket ''slow'' JNull (Some (UserHandler 0)) False
   \<and> 2 = m_nextCallId open_socket
   \<and> m_pendingResponses slow_emitted 2 = Some \<lparr>handler = UserHandler 0, ackTimer = Some Armed\<rparr>
   \<and> m_pendingResponses (ackTimer_wait_handler slow_emitted 2 False) 2 = None
   \<and> handler_calls (trace (ackTimer_wait_handler slow_emitted 2 False)) =
        handler_calls (trace slow_emitted) @
          [Invoked (UserHandler 0) (Some ack_timeout)
             (JObj [(''error'', JObj [(''message'', JStr ''no ack for call id (cid) 2'')])])]"
proof -
  have h1: "slow_emitted = emit open_socket ''slow'' JNull (Some (UserHandler 0)) False"
    by (simp add: slow_emitted_def)
  have h2: "2 = m_nextCallId open_socket"
    by (simp add: example_socket_defs)
  have h3: "m_pendingResponses slow_emitted 2 = m_pendingResponses slow_emitted 2"
    by simp
  have "dec (unat (2 :: CallId)) = ''2''"
    by (simp add: dec.simps)
  then show ?thesis
    using h1 h2 ack_timeout_dispatch [OF h1 h2 h3] by simp
qed

subsection \<open>Classifying and handling inbound packets\<close>

lemma sint_of_int_eq:
  assumes "- (2 ^ 31) \<le> r" and "r < 2 ^ 31"
  shows "sint (word_of_int r :: 32 word) = r"
  using assms by (simp add: sint_sbintrunc' signed_take_bit_int_eq_self)

text \<open>
  C5, as the specification states it, fails in two ways. \<^verbatim>\<open>value("rid", 0)\<close> converts the
  member to \<^verbatim>\<open>int\<close>, so a packet without \<^verbatim>\<open>event\<close> whose \<^verbatim>\<open>rid\<close> is
  \<open>2 ^ 32 + 1\<close> is classified \<open>IS_AUTHENTICATED\<close> and raises the connect event, although
  its \<^verbatim>\<open>rid\<close> is not 1. And an \<^verbatim>\<open>event\<close> member that is not a string is not classified
  \<open>EVENT\<close>: its conversion to \<^verbatim>\<open>std::string\<close> raises an exception that is not
  \<^verbatim>\<open>std::out_of_range\<close> and leaves \<^verbatim>\<open>readSomeHandler\<close>.
\<close>

theorem getEventType_counterexample:
  "getEventType (JObj [(''rid'', JInt 4294967297)]) = Inr IS_AUTHENTICATED
   \<and> readSomeHandler example_base64 example_parse open_socket (Inr (JObj [(''rid'', JInt 4294967297)]))
       = Inr (triggerEvent open_socket (ConnectEvent (JObj [(''rid'', JInt 4294967297)])))
   \<and> getEventType (JObj [(''event'', JInt 5)]) = Inl domain_error
   \<and> readSomeHandler example_base64 example_parse open_socket (Inr (JObj [(''event'', JInt 5)])) = Inl domain_error"
  by (simp add: getEventType_def bind_def readSomeHandler_def)

text \<open>
  C5, amended. For a decoded object whose \<^verbatim>\<open>event\<close> member, when present, is a string and
  whose \<^verbatim>\<open>rid\<close> member, when present, is an integer in the range of a 32-bit \<^verbatim>\<open>int\<close>:
  the event \<^verbatim>\<open>#publish\<close> gives \<open>PUBLISH\<close>, \<^verbatim>\<open>#removeAuthToken\<close> gives
  \<open>REMOVE_TOKEN\<close>, \<^verbatim>\<open>#setAuthToken\<close> gives \<open>SET_TOKEN\<close> and any other event gives
  \<open>EVENT\<close>; without an event, \<^verbatim>\<open>rid\<close> equal to 1 gives \<open>IS_AUTHENTICATED\<close> and any
  other or no \<^verbatim>\<open>rid\<close> gives \<open>ACK_RECEIVE\<close>. A packet classified \<open>IS_AUTHENTICATED\<close>
  raises the connect event with the whole payload and does nothing else.
\<close>

theorem getEventType_classification:
  "(map_of kvs ''event'' = Some (JStr e) \<longrightarrow>
      getEventType (JObj kvs) =
        Inr (if e = ''#publish'' then PUBLISH
             else if e = ''#removeAuthToken'' then REMOVE_TOKEN
             else if e = ''#setAuthToken'' then SET_TOKEN
             else EVENT))
   \<and> (map_of kvs ''event'' = None \<and> map_of kvs ''rid'' = Some (JInt r) \<and> - (2 ^ 31) \<le> r \<and> r < 2 ^ 31 \<longrightarrow>
        getEventType (JObj kvs) = Inr (if r = 1 then IS_AUTHENTICATED else ACK_RECEIVE))
   \<and> (map_of kvs ''event'' = None \<and> map_of kvs ''rid'' = None \<longrightarrow>
        getEventType (JObj kvs) = Inr ACK_RECEIVE)
   \<and> (getEventType (JObj kvs) = Inr IS_AUTHENTICATED \<longrightarrow>
        readSomeHandler base64 parse s (Inr (JObj kvs)) = Inr (triggerEvent s (ConnectEvent (JObj kvs))))"
proof -
  have named: "map_of kvs ''event'' = Some (JStr e) \<longrightarrow>
      getEventType (JObj kvs) =
        Inr (if e = ''#publish'' then PUBLISH
             else if e = ''#removeAuthToken'' then REMOVE_TOKEN
             else if e = ''#setAuthToken'' then SET_TOKEN
             else EVENT)"
    by (auto simp: getEventType_def bind_def)
  have with_rid: "map_of kvs ''event'' = None \<and> map_of kvs ''rid'' = Some (JInt r) \<and> - (2 ^ 31) \<le> r \<and> r < 2 ^ 31 \<longrightarrow>
        getEventType (JObj kvs) = Inr (if r = 1 then IS_AUTHENTICATED else ACK_RECEIVE)"
    by (auto simp: getEventType_def bind_def sint_of_int_eq)
  have without: "map_of kvs ''event'' = None \<and> map_of kvs ''rid'' = None \<longrightarrow>
        getEventType (JObj kvs) = Inr ACK_RECEIVE"
    by (simp add: getEventType_def bind_def)
  have connect: "getEventType (JObj kvs) = Inr IS_AUTHENTICATED \<longrightarrow>
        readSomeHandler base64 parse s (Inr (JObj kvs)) = Inr (triggerEvent s (ConnectEvent (JObj kvs)))"
    by (simp add: readSomeHandler_def bind_def)
  from named with_rid without connect show ?thesis
    by blast
qed

theorem getEventType_classification_witness:
  "getEventType publish_packet = Inr PUBLISH
   \<and> getEventType (setAuthToken_packet ''aaa.e30.zzz'') = Inr SET_TOKEN
   \<and> getEventType (JObj [(''data'', JNull), (''event'', JStr ''chat'')]) = Inr EVENT
   \<and> getEventType (JObj [(''rid'', JInt 1)]) = Inr IS_AUTHENTICATED
   \<and> readSomeHandler example_base64 example_parse open_socket (Inr (JObj [(''rid'', JInt 1)]))
       = Inr (triggerEvent open_socket (ConnectEvent (JObj [(''rid'', JInt 1)])))
   \<and> getEventType foo_response = Inr ACK_RECEIVE
   \<and> getEventType (JObj []) = Inr ACK_RECEIVE"
  using
    getEventType_classification [where kvs = "[(''data'', JObj [(''channel'', JStr ''room''), (''data'', JObj [(''msg'', JStr ''hi'')])]), (''event'', JStr ''#publish'')]"
      and e = "''#publish''"]
    getEventType_classification [where kvs = "[(''data'', JObj [(''token'', JStr ''aaa.e30.zzz'')]), (''event'', JStr ''#setAuthToken'')]"
      and e = "''#setAuthToken''"]
    getEventType_classification [where kvs = "[(''data'', JNull), (''event'', JStr ''chat'')]" and e = "''chat''"]
    getEventType_classification [where kvs = "[(''rid'', JInt 1)]" and r = 1 and s = open_socket
      and ?base64.0 = example_base64 and parse = example_parse]
    getEventType_classification [where kvs = "[(''data'', JObj [(''ok'', JBool True)]), (''rid'', JInt 2)]" and r = 2]
    getEventType_classification [where kvs = "[]"]
  by (simp add: publish_packet_def setAuthToken_packet_def foo_response_def)

text \<open>The \<^verbatim>\<open>SET_TOKEN\<close> case in full, for a packet whose \<^verbatim>\<open>data.token\<close> is a string and
  whose \<^verbatim>\<open>data.pingTimeout\<close>, when present, is a number. A token of three parts whose
  payload does not decode or parse raises \<open>protocol_error\<close> when the exception is one the
  case catches, and lets the exception escape otherwise; a token that parses replaces both
  stored tokens and raises \<open>AuthenticateEvent\<close> if the signed token was empty and
  \<open>AuthTokenChangeEvent\<close> in either case. A token that does not have three parts changes
  the ping timeout at most.\<close>

lemma SET_TOKEN_cases:
  assumes "map_of kvs ''event'' = Some (JStr ''#setAuthToken'')"
    and "map_of kvs ''data'' = Some (JObj dkvs)"
    and "map_of dkvs ''token'' = Some (JStr token)"
    and "value_uint32 (JObj dkvs) ''pingTimeout'' (m_pingTimeout s) = Inr pt"
  shows "readSomeHandler base64 parse s (Inr (JObj kvs)) =
     (if length (split (CHR ''.'') token) \<noteq> 3 then Inr (s\<lparr>m_pingTimeout := pt\<rparr>)
      else
        (case bind (base64 (split (CHR ''.'') token ! 1)) parse of
           Inl e \<Rightarrow>
             (if e = invalid_argument \<or> e = out_of_range
              then Inr (triggerEvent (s\<lparr>m_pingTimeout := pt\<rparr>) (ErrorEvent protocol_error))
              else Inl e)
         | Inr tok \<Rightarrow>
             Inr (s\<lparr>m_pingTimeout := pt, m_authToken := tok, m_signedAuthToken := token,
                    trace := trace s @ (if m_signedAuthToken s = [] then [Socket (AuthenticateEvent token)] else [])
                               @ [Socket (AuthTokenChangeEvent token)]\<rparr>)))"
proof -
  have kind: "getEventType (JObj kvs) = Inr SET_TOKEN"
    using assms(1) by (simp add: getEventType_def bind_def)
  have handler: "readSomeHandler base64 parse s (Inr (JObj kvs)) = case_SET_TOKEN base64 parse s (JObj kvs)"
    by (simp add: readSomeHandler_def kind bind_def)
  show ?thesis
    unfolding handler
    using assms(2,3,4)
    by (auto simp: case_SET_TOKEN_def bind_def catch_protocol_error_def Let_def triggerEvent_def
        split: sum.splits)
qed

text \<open>
  C7. A \<^verbatim>\<open>#setAuthToken\<close> packet whose token does not split into three parts: for the
  token \<^verbatim>\<open>abc\<close> the socket is left exactly as it was, with no \<open>protocol_error\<close> on the
  error event. The branch for such a token is empty in the source, under a comment that asks
  what to do. The neighbouring paths do raise \<open>protocol_error\<close>: a token of three parts
  whose payload does not parse, and a packet without \<^verbatim>\<open>data.token\<close>.
\<close>

theorem malformed_token_raises_no_error:
  "split (CHR ''.'') ''abc'' = [''abc'']
   \<and> trace open_socket = [Socket ConnectingEvent]
   \<and> readSomeHandler example_base64 example_parse open_socket (Inr (setAuthToken_packet ''abc'')) = Inr open_socket
   \<and> readSomeHandler example_base64 example_parse open_socket (Inr (setAuthToken_packet ''aaa.bm8.zzz'')) =
       Inr (triggerEvent open_socket (ErrorEvent protocol_error))
   \<and> readSomeHandler example_base64 example_parse open_socket
        (Inr (JObj [(''data'', JObj []), (''event'', JStr ''#setAuthToken'')])) =
       Inr (triggerEvent open_socket (ErrorEvent protocol_error))"
  by (simp add: setAuthToken_packet_def readSomeHandler_def getEventType_def bind_def case_SET_TOKEN_def
      catch_protocol_error_def example_base64_def example_parse_def)
    (simp add: example_socket_defs)

subsection \<open>Closing\<close>

lemma suspend_newState_idem: "suspend_newState (suspend_newState st) = suspend_newState st"
  by (simp add: suspend_newState_def)

lemma heap_triggerChannelUnsubscribe:
  "heap (triggerChannelUnsubscribe s channel new) = (heap s)(channel := (heap s channel)\<lparr>ch_state := new\<rparr>)"
  by (simp add: triggerChannelUnsubscribe_def Let_def set_channel_state_def channel_triggerEvent_def triggerEvent_def)

lemma trace_triggerChannelUnsubscribe:
  "trace (triggerChannelUnsubscribe s channel (suspend_newState (getState s channel))) = trace s @ suspend_signals s channel"
  by (simp add: triggerChannelUnsubscribe_def Let_def set_channel_state_def channel_triggerEvent_def triggerEvent_def
      suspend_signals_def suspend_newState_def getState_def getName_def)

lemma rest_triggerChannelUnsubscribe:
  "m_outQueue (triggerChannelUnsubscribe s channel new) = m_outQueue s"
  "m_pendingResponses (triggerChannelUnsubscribe s channel new) = m_pendingResponses s"
  "m_state (triggerChannelUnsubscribe s channel new) = m_state s"
  "m_channels (triggerChannelUnsubscribe s channel new) = m_channels s"
  by (simp_all add: triggerChannelUnsubscribe_def Let_def set_channel_state_def channel_triggerEvent_def triggerEvent_def)

lemma rest_suspend_loop:
  "m_outQueue (suspend_loop s subs) = m_outQueue s
   \<and> m_pendingResponses (suspend_loop s subs) = m_pendingResponses s
   \<and> m_state (suspend_loop s subs) = m_state s
   \<and> m_channels (suspend_loop s subs) = m_channels s"
  by (induction subs arbitrary: s) (simp_all add: rest_triggerChannelUnsubscribe)

lemma heap_suspend_loop:
  "heap (suspend_loop s subs) channel =
     (if channel \<in> snd ` set subs
      then (heap s channel)\<lparr>ch_state := suspend_newState (ch_state (heap s channel))\<rparr>
      else heap s channel)"
proof (induction subs arbitrary: s)
  case Nil
  show ?case by simp
next
  case (Cons sub subs)
  show ?case
    by (simp add: Cons.IH heap_triggerChannelUnsubscribe getState_def suspend_newState_idem)
qed

lemma suspend_signals_cong:
  assumes "heap s' channel = heap s channel"
  shows "suspend_signals s' channel = suspend_signals s channel"
  using assms by (simp add: suspend_signals_def getState_def getName_def)

lemma trace_suspend_loop:
  assumes "distinct (map snd subs)"
  shows "trace (suspend_loop s subs) = trace s @ concat (map (\<lambda>sub. suspend_signals s (snd sub)) subs)"
  using assms
proof (induction subs arbitrary: s)
  case Nil
  show ?case by simp
next
  case (Cons sub subs)
  let ?s1 = "triggerChannelUnsubscribe s (snd sub) (suspend_newState (getState s (snd sub)))"
  from Cons.prems have fresh: "snd sub \<notin> snd ` set subs" and rest: "distinct (map snd subs)"
    by auto
  have same: "suspend_signals ?s1 (snd x) = suspend_signals s (snd x)" if "x \<in> set subs" for x
  proof -
    from that fresh have "snd x \<noteq> snd sub"
      by (metis imageI)
    then show ?thesis
      by (intro suspend_signals_cong) (simp add: heap_triggerChannelUnsubscribe)
  qed
  have "trace (suspend_loop s (sub # subs)) = trace ?s1 @ concat (map (\<lambda>x. suspend_signals ?s1 (snd x)) subs)"
    by (simp add: Cons.IH [OF rest])
  also have "map (\<lambda>x. suspend_signals ?s1 (snd x)) subs = map (\<lambda>x. suspend_signals s (snd x)) subs"
    using same by simp
  finally show ?case
    by (simp add: trace_triggerChannelUnsubscribe)
qed

lemma three_channels_socket_facts:
  "m_channels three_channels_socket = [(''news'', Suc 0), (''old'', 2), (''room'', 0)]"
  "getState three_channels_socket 0 = SUBSCRIBED"
  "getState three_channels_socket (Suc 0) = PENDING"
  "getState three_channels_socket 2 = UNSUBSCRIBED"
  "getName three_channels_socket 0 = ''room''"
  by (simp_all add: three_channels_socket_def subscribing_socket_def example_socket_defs dispatch_defs
      triggerChannelSubscribe_def triggerChannelUnsubscribe_def channel_triggerEvent_def
      unsubscribe_def sendChannelUnsubscribe_def Let_def)

text \<open>
  C2, as the specification states it, fails on the pending-response table and on the signals
  for a \<open>PENDING\<close> channel. On the socket that waits for the response to its
  \<^verbatim>\<open>#subscribe\<close> for \<^verbatim>\<open>room\<close>, \<^verbatim>\<open>internalClose\<close> takes the state from \<open>OPEN\<close> to
  \<open>CLOSED\<close>, but the entry for call id 2 stays in the table, and nothing is signalled for
  the channel, which was \<open>PENDING\<close>.
\<close>

theorem internalClose_counterexample:
  "m_state subscribing_socket = OPEN
   \<and> m_channels subscribing_socket = [(''room'', 0)]
   \<and> getState subscribing_socket 0 = PENDING
   \<and> m_state (internalClose subscribing_socket) = CLOSED
   \<and> m_pendingResponses (internalClose subscribing_socket) 2 =
        Some \<lparr>handler = SubscribeHandler 0 room_options, ackTimer = Some Armed\<rparr>
   \<and> trace (internalClose subscribing_socket) = trace subscribing_socket"
  by (simp add: subscribing_socket_def example_socket_defs internalClose_def clearIoWriteQueue_def
      suspendChannelSubscriptions_def triggerChannelUnsubscribe_def suspend_newState_def Let_def)

text \<open>
  C2, amended. When \<^verbatim>\<open>internalClose\<close> runs on a socket whose registry holds distinct
  channel objects, an \<open>OPEN\<close> socket becomes \<open>CLOSED\<close>, the egress queue is cleared,
  the pending-response table and the registry are left as they are, every registered channel
  that was \<open>SUBSCRIBED\<close> or \<open>PENDING\<close> is \<open>PENDING\<close> afterwards and every one
  that was \<open>UNSUBSCRIBED\<close> stays \<open>UNSUBSCRIBED\<close>, and the state-change and unsubscribe
  signals are raised, in registry order, for exactly the channels that were \<open>SUBSCRIBED\<close>.
\<close>

theorem internalClose_effects:
  assumes "distinct (map snd (m_channels s))"
  shows "(OPEN = m_state s \<longrightarrow> m_state (internalClose s) = CLOSED)
    \<and> m_outQueue (internalClose s) = []
    \<and> m_pendingResponses (internalClose s) = m_pendingResponses s
    \<and> m_channels (internalClose s) = m_channels s
    \<and> (\<forall>channel \<in> snd ` set (m_channels s).
          (getState s channel = SUBSCRIBED \<or> getState s channel = PENDING
             \<longrightarrow> getState (internalClose s) channel = PENDING)
          \<and> (getState s channel = UNSUBSCRIBED \<longrightarrow> getState (internalClose s) channel = UNSUBSCRIBED))
    \<and> trace (internalClose s) = trace s @ concat (map (\<lambda>sub. suspend_signals s (snd sub)) (m_channels s))"
proof -
  let ?s1 = "clearIoWriteQueue (if OPEN = m_state s then s\<lparr>m_state := CLOSED\<rparr> else s)"
  have close: "internalClose s = suspend_loop ?s1 (m_channels s)"
    by (simp add: internalClose_def suspendChannelSubscriptions_def clearIoWriteQueue_def)
  have signals: "suspend_signals ?s1 c = suspend_signals s c" for c
    by (simp add: suspend_signals_def clearIoWriteQueue_def getState_def getName_def)
  have "trace (internalClose s) = trace ?s1 @ concat (map (\<lambda>sub. suspend_signals ?s1 (snd sub)) (m_channels s))"
    unfolding close using assms by (rule trace_suspend_loop)
  moreover have "trace ?s1 = trace s"
    by (simp add: clearIoWriteQueue_def)
  ultimately have tr: "trace (internalClose s) = trace s @ concat (map (\<lambda>sub. suspend_signals s (snd sub)) (m_channels s))"
    by (simp only: signals)
  have rest: "(OPEN = m_state s \<longrightarrow> m_state (internalClose s) = CLOSED)
    \<and> m_outQueue (internalClose s) = []
    \<and> m_pendingResponses (internalClose s) = m_pendingResponses s
    \<and> m_channels (internalClose s) = m_channels s"
    unfolding close by (simp add: rest_suspend_loop clearIoWriteQueue_def)
  have states: "\<forall>channel \<in> snd ` set (m_channels s).
          (getState s channel = SUBSCRIBED \<or> getState s channel = PENDING
             \<longrightarrow> getState (internalClose s) channel = PENDING)
          \<and> (getState s channel = UNSUBSCRIBED \<longrightarrow> getState (internalClose s) channel = UNSUBSCRIBED)"
    unfolding close
    by (auto simp: getState_def heap_suspend_loop clearIoWriteQueue_def suspend_newState_def)
  from rest states tr show ?thesis
    by blast
qed

theorem internalClose_effects_witness:
  "distinct (map snd (m_channels three_channels_socket))
   \<and> m_channels three_channels_socket = [(''news'', 1), (''old'', 2), (''room'', 0)]
   \<and> getState three_channels_socket 0 = SUBSCRIBED
   \<and> getState three_channels_socket 1 = PENDING
   \<and> getState three_channels_socket 2 = UNSUBSCRIBED
   \<and> getState (internalClose three_channels_socket) 0 = PENDING
   \<and> getState (internalClose three_channels_socket) 1 = PENDING
   \<and> getState (internalClose three_channels_socket) 2 = UNSUBSCRIBED
   \<and> m_outQueue (internalClose three_channels_socket) = []
   \<and> trace (internalClose three_channels_socket) =
        trace three_channels_socket @
          [Channel 0 (ChSubscriptionStateChangeEvent \<lparr>name = ''room'', oldState = SUBSCRIBED, newState = PENDING\<rparr>),
           Channel 0 (ChUnsubscribeEvent ''room''),
           Socket (SubscriptionStateChangeEvent \<lparr>name = ''room'', oldState = SUBSCRIBED, newState = PENDING\<rparr>),
           Socket (UnsubscribeEvent ''room'')]"
proof -
  have h: "distinct (map snd (m_channels three_channels_socket))"
    by (simp add: three_channels_socket_facts)
  show ?thesis
    using h internalClose_effects [OF h]
    by (simp add: three_channels_socket_facts suspend_signals_def Let_def)
qed

subsection \<open>Reconnect delay\<close>















end
